theory Spec2Isabelle
  imports Main
begin

section \<open>Customer Information Management System: validation and persistence\<close>

text \<open>
  The development embeds \<^verbatim>\<open>fridayproject5.py\<close>: the six field validators,
  \<^verbatim>\<open>validate_all\<close>, \<^verbatim>\<open>insert_customer\<close>, \<^verbatim>\<open>init_db\<close> and the submit
  handler \<^verbatim>\<open>App.on_submit\<close>.

  A Python \<^verbatim>\<open>str\<close> is modelled as a \<^typ>\<open>string\<close>, one \<^typ>\<open>char\<close> per code
  point, so the model covers the code points 0 to 255. The library functions the program
  calls (\<^verbatim>\<open>str.strip\<close>, \<^verbatim>\<open>re\<close>, \<^verbatim>\<open>datetime.strptime\<close>, \<^verbatim>\<open>sqlite3\<close>) are
  modelled from their documented behaviour in CPython 3.11 and SQLite, each in a definition
  of its own, apart from the functions of the program.
\<close>

subsection \<open>Python library: characters and \<^verbatim>\<open>str.strip\<close>\<close>

text \<open>
  \<^verbatim>\<open>str.isspace\<close>, which is also the class \<^verbatim>\<open>\s\<close> of a \<^verbatim>\<open>str\<close> pattern: below code
  point 256 these are TAB, LF, VT, FF, CR, the separators FS, GS, RS, US, the space, NEL
  (0x85) and the no-break space (0xA0).
\<close>

definition isspace :: "char \<Rightarrow> bool" where
  "isspace c = (c \<in> set [CHR 0x09, CHR 0x0A, CHR 0x0B, CHR 0x0C, CHR 0x0D,
                          CHR 0x1C, CHR 0x1D, CHR 0x1E, CHR 0x1F, CHR 0x20,
                          CHR 0x85, CHR 0xA0])"

text \<open>The class \<^verbatim>\<open>\d\<close>: below code point 256 the decimal digits are 0 to 9.\<close>

definition isdigit :: "char \<Rightarrow> bool" where
  "isdigit c = (c \<in> set ''0123456789'')"

definition lstrip :: "string \<Rightarrow> string" where
  "lstrip s = dropWhile isspace s"

definition rstrip :: "string \<Rightarrow> string" where
  "rstrip s = rev (dropWhile isspace (rev s))"

text \<open>\<^verbatim>\<open>s.strip()\<close>: the leading and the trailing whitespace removed.\<close>

definition strip :: "string \<Rightarrow> string" where
  "strip s = rstrip (lstrip s)"

subsection \<open>Python library: regular expressions\<close>

text \<open>
  Regular expressions over character classes, matched by derivatives. A backtracking
  matcher finds a match of the whole subject exactly when one exists, which is what
  \<open>fullmatch\<close> decides.
\<close>

datatype rx =
    Null
  | Eps
  | Cls "char \<Rightarrow> bool"
  | Seq rx rx
  | Alt rx rx
  | Star rx

abbreviation Plus :: "rx \<Rightarrow> rx" where
  "Plus r \<equiv> Seq r (Star r)"

abbreviation Lit :: "char \<Rightarrow> rx" where
  "Lit c \<equiv> Cls (\<lambda>x. x = c)"

fun nullable :: "rx \<Rightarrow> bool" where
  "nullable Null = False"
| "nullable Eps = True"
| "nullable (Cls P) = False"
| "nullable (Seq r s) = (nullable r \<and> nullable s)"
| "nullable (Alt r s) = (nullable r \<or> nullable s)"
| "nullable (Star r) = True"

fun deriv :: "char \<Rightarrow> rx \<Rightarrow> rx" where
  "deriv c Null = Null"
| "deriv c Eps = Null"
| "deriv c (Cls P) = (if P c then Eps else Null)"
| "deriv c (Seq r s) =
     (if nullable r then Alt (Seq (deriv c r) s) (deriv c s) else Seq (deriv c r) s)"
| "deriv c (Alt r s) = Alt (deriv c r) (deriv c s)"
| "deriv c (Star r) = Seq (deriv c r) (Star r)"

fun fullmatch :: "rx \<Rightarrow> string \<Rightarrow> bool" where
  "fullmatch r [] = nullable r"
| "fullmatch r (c # cs) = fullmatch (deriv c r) cs"

text \<open>
  \<^verbatim>\<open>re.compile("^" body "$").match(s)\<close> without \<^verbatim>\<open>re.MULTILINE\<close>: the body matches
  from the start of \<open>s\<close>, and \<^verbatim>\<open>$\<close> holds at the end of \<open>s\<close> or just before a newline
  that ends \<open>s\<close>.
\<close>

definition re_match_anchored :: "rx \<Rightarrow> string \<Rightarrow> bool" where
  "re_match_anchored body s =
     (fullmatch body s \<or> (s \<noteq> [] \<and> last s = CHR 0x0A \<and> fullmatch body (butlast s)))"

text \<open>\<^verbatim>\<open>re.sub(r"\D", "", s)\<close>: every character that is not a digit is replaced by nothing.\<close>

fun re_sub_nondigit :: "string \<Rightarrow> string" where
  "re_sub_nondigit [] = []"
| "re_sub_nondigit (c # cs) = (if \<not> isdigit c then re_sub_nondigit cs else c # re_sub_nondigit cs)"

subsection \<open>Python library: \<^verbatim>\<open>datetime.strptime(s, "%Y-%m-%d")\<close>\<close>

datatype error =
    KeyError string
  | ValueError string
  | SqliteError string

text \<open>\<^verbatim>\<open>int\<close> of one decimal digit.\<close>

definition digit_val :: "char \<Rightarrow> nat" where
  "digit_val c = of_char c - 48"

text \<open>
  The format is compiled to the regular expression
  \<^verbatim>\<open>(?P<Y>\d\d\d\d)-(?P<m>1[0-2]|0[1-9]|[1-9])-(?P<d>3[0-1]|[1-2]\d|0[1-9]|[1-9]| [1-9])\<close>.
  Each group is modelled by the list of its matches at the head of the subject, in the order
  in which the alternatives are tried, with the value \<^verbatim>\<open>int\<close> gives the matched text
  and the rest of the subject.
\<close>

fun group_Y :: "string \<Rightarrow> (nat \<times> string) list" where
  "group_Y (a # b # c # d # rest) =
     (if isdigit a \<and> isdigit b \<and> isdigit c \<and> isdigit d
      then [(1000 * digit_val a + 100 * digit_val b + 10 * digit_val c + digit_val d, rest)]
      else [])"
| "group_Y _ = []"

fun two_chars :: "(char \<Rightarrow> bool) \<Rightarrow> (char \<Rightarrow> bool) \<Rightarrow> (char \<Rightarrow> char \<Rightarrow> nat) \<Rightarrow> string
    \<Rightarrow> (nat \<times> string) list" where
  "two_chars P Q val (a # b # rest) = (if P a \<and> Q b then [(val a b, rest)] else [])"
| "two_chars P Q val _ = []"

fun one_char :: "(char \<Rightarrow> bool) \<Rightarrow> string \<Rightarrow> (nat \<times> string) list" where
  "one_char P (a # rest) = (if P a then [(digit_val a, rest)] else [])"
| "one_char P [] = []"

definition in_range :: "string \<Rightarrow> char \<Rightarrow> bool" where
  "in_range cs c = (c \<in> set cs)"

definition two_digits :: "char \<Rightarrow> char \<Rightarrow> nat" where
  "two_digits a b = 10 * digit_val a + digit_val b"

definition group_m :: "string \<Rightarrow> (nat \<times> string) list" where
  "group_m s =
     two_chars (in_range ''1'') (in_range ''012'') two_digits s
     @ two_chars (in_range ''0'') (in_range ''123456789'') two_digits s
     @ one_char (in_range ''123456789'') s"

definition group_d :: "string \<Rightarrow> (nat \<times> string) list" where
  "group_d s =
     two_chars (in_range ''3'') (in_range ''01'') two_digits s
     @ two_chars (in_range ''12'') isdigit two_digits s
     @ two_chars (in_range ''0'') (in_range ''123456789'') two_digits s
     @ one_char (in_range ''123456789'') s
     @ two_chars (in_range '' '') (in_range ''123456789'') (\<lambda>a b. digit_val b) s"

fun dash :: "string \<Rightarrow> string list" where
  "dash (c # rest) = (if c = CHR ''-'' then [rest] else [])"
| "dash [] = []"

text \<open>
  All matches of the compiled format at the head of the subject, in the order a
  backtracking matcher finds them; \<^verbatim>\<open>format_regex.match\<close> returns the first one.
\<close>

definition format_regex_matches :: "string \<Rightarrow> ((nat \<times> nat \<times> nat) \<times> string) list" where
  "format_regex_matches s =
     concat (map (\<lambda>(y, r1).
       concat (map (\<lambda>r2.
         concat (map (\<lambda>(m, r3).
           concat (map (\<lambda>r4.
             map (\<lambda>(d, r5). ((y, m, d), r5)) (group_d r4))
           (dash r3)))
         (group_m r2)))
       (dash r1)))
     (group_Y s))"

definition is_leap :: "nat \<Rightarrow> bool" where
  "is_leap y = (y mod 4 = 0 \<and> (y mod 100 \<noteq> 0 \<or> y mod 400 = 0))"

definition days_in_month :: "nat \<Rightarrow> nat \<Rightarrow> nat" where
  "days_in_month y m =
     (if m = 2 then (if is_leap y then 29 else 28)
      else if m \<in> set [4, 6, 9, 11] then 30 else 31)"

text \<open>
  The constructor \<^verbatim>\<open>datetime.date(year, month, day)\<close>, which raises \<^verbatim>\<open>ValueError\<close>
  outside the years 1 to 9999, the months 1 to 12 and the days of the month.
\<close>

definition datetime_date :: "nat \<Rightarrow> nat \<Rightarrow> nat \<Rightarrow> error + (nat \<times> nat \<times> nat)" where
  "datetime_date y m d =
     (if \<not> (1 \<le> y \<and> y \<le> 9999) then Inl (ValueError ''year is out of range'')
      else if \<not> (1 \<le> m \<and> m \<le> 12) then Inl (ValueError ''month must be in 1..12'')
      else if \<not> (1 \<le> d \<and> d \<le> days_in_month y m)
        then Inl (ValueError ''day is out of range for month'')
      else Inr (y, m, d))"

text \<open>
  \<^verbatim>\<open>datetime.strptime(data_string, "%Y-%m-%d")\<close>: no match of the format, text left
  after the match, and a date that does not exist each raise \<^verbatim>\<open>ValueError\<close>.
\<close>

definition strptime :: "string \<Rightarrow> error + (nat \<times> nat \<times> nat)" where
  "strptime data_string =
     (case format_regex_matches data_string of
        [] \<Rightarrow> Inl (ValueError ''time data does not match format'')
      | ((y, m, d), rest) # _ \<Rightarrow>
          if rest \<noteq> [] then Inl (ValueError ''unconverted data remains'')
          else datetime_date y m d)"

subsection \<open>Validation helpers\<close>

text \<open>\<^verbatim>\<open>EMAIL_RE = re.compile(r"^[^@\s]+@[^@\s]+\.[^@\s]+$")\<close>\<close>

definition not_at_space :: "char \<Rightarrow> bool" where
  "not_at_space c = (\<not> (c = CHR ''@'' \<or> isspace c))"

definition EMAIL_RE :: rx where
  "EMAIL_RE =
     Seq (Plus (Cls not_at_space))
       (Seq (Lit CHR ''@'')
         (Seq (Plus (Cls not_at_space))
           (Seq (Lit CHR ''.'') (Plus (Cls not_at_space)))))"

definition validate_name :: "string \<Rightarrow> bool" where
  "validate_name name = (length (strip name) > 0)"

definition validate_birthday :: "string \<Rightarrow> bool" where
  "validate_birthday bday =
     (case strptime (strip bday) of Inr _ \<Rightarrow> True | Inl _ \<Rightarrow> False)"

definition validate_email :: "string \<Rightarrow> bool" where
  "validate_email email = re_match_anchored EMAIL_RE (strip email)"

definition validate_phone :: "string \<Rightarrow> bool" where
  "validate_phone phone = (let digits = re_sub_nondigit phone in length digits \<ge> 10)"

definition validate_address :: "string \<Rightarrow> bool" where
  "validate_address addr = (length (strip addr) > 0)"

definition validate_preferred_contact :: "string \<Rightarrow> bool" where
  "validate_preferred_contact choice = (choice \<in> set [''Email'', ''Phone'', ''Mail''])"

text \<open>\<^verbatim>\<open>fields[key]\<close> on a \<^verbatim>\<open>dict\<close>: a missing key raises \<^verbatim>\<open>KeyError\<close>.\<close>

definition getitem :: "(string \<rightharpoonup> string) \<Rightarrow> string \<Rightarrow> error + string" where
  "getitem fields key = (case fields key of None \<Rightarrow> Inl (KeyError key) | Some v \<Rightarrow> Inr v)"

definition validate_all :: "(string \<rightharpoonup> string) \<Rightarrow> error + (bool \<times> string)" where
  "validate_all fields =
     (case getitem fields ''name'' of Inl err \<Rightarrow> Inl err | Inr v1 \<Rightarrow>
      if \<not> validate_name v1 then Inr (False, ''Please enter the customer's name.'') else
     (case getitem fields ''birthday'' of Inl err \<Rightarrow> Inl err | Inr v2 \<Rightarrow>
      if \<not> validate_birthday v2
      then Inr (False, ''Birthday must be in YYYY-MM-DD format (e.g., 2001-09-15).'') else
     (case getitem fields ''email'' of Inl err \<Rightarrow> Inl err | Inr v3 \<Rightarrow>
      if \<not> validate_email v3 then Inr (False, ''Please enter a valid email address.'') else
     (case getitem fields ''phone'' of Inl err \<Rightarrow> Inl err | Inr v4 \<Rightarrow>
      if \<not> validate_phone v4
      then Inr (False, ''Please enter a valid phone number with at least 10 digits.'') else
     (case getitem fields ''address'' of Inl err \<Rightarrow> Inl err | Inr v5 \<Rightarrow>
      if \<not> validate_address v5 then Inr (False, ''Please enter the address.'') else
     (case getitem fields ''preferred_contact'' of Inl err \<Rightarrow> Inl err | Inr v6 \<Rightarrow>
      if \<not> validate_preferred_contact v6
      then Inr (False, ''Please choose a preferred contact method.'')
      else Inr (True, '''')))))))"

subsection \<open>The record validator as the specification words it\<close>

text \<open>
  The fixed order of the fields, the validator of each field and the reason reported for
  it, and the walk along the order that stops at the first field that fails. A field that
  is looked up and missing raises \<^verbatim>\<open>KeyError\<close>, as \<^verbatim>\<open>fields[key]\<close> does.
\<close>

definition field_order :: "string list" where
  "field_order = [''name'', ''birthday'', ''email'', ''phone'', ''address'', ''preferred_contact'']"

definition validator :: "string \<Rightarrow> string \<Rightarrow> bool" where
  "validator k v =
     (if k = ''name'' then validate_name v
      else if k = ''birthday'' then validate_birthday v
      else if k = ''email'' then validate_email v
      else if k = ''phone'' then validate_phone v
      else if k = ''address'' then validate_address v
      else if k = ''preferred_contact'' then validate_preferred_contact v
      else False)"

definition reason_of :: "string \<Rightarrow> string" where
  "reason_of k =
     (if k = ''name'' then ''Please enter the customer's name.''
      else if k = ''birthday'' then ''Birthday must be in YYYY-MM-DD format (e.g., 2001-09-15).''
      else if k = ''email'' then ''Please enter a valid email address.''
      else if k = ''phone'' then ''Please enter a valid phone number with at least 10 digits.''
      else if k = ''address'' then ''Please enter the address.''
      else if k = ''preferred_contact'' then ''Please choose a preferred contact method.''
      else '''')"

fun first_failure :: "(string \<rightharpoonup> string) \<Rightarrow> string list \<Rightarrow> error + string option" where
  "first_failure fields [] = Inr None"
| "first_failure fields (k # ks) =
     (case fields k of
        None \<Rightarrow> Inl (KeyError k)
      | Some v \<Rightarrow> if \<not> validator k v then Inr (Some k) else first_failure fields ks)"

definition earliest_invalid :: "(string \<rightharpoonup> string) \<Rightarrow> string option" where
  "earliest_invalid fields = find (\<lambda>k. \<not> validator k (the (fields k))) field_order"

subsection \<open>Database setup\<close>

text \<open>
  A row of the table \<^verbatim>\<open>customers\<close>. The column \<^verbatim>\<open>id INTEGER PRIMARY KEY AUTOINCREMENT\<close>
  is \<open>row_id\<close>; \<^verbatim>\<open>created_at\<close> takes \<^verbatim>\<open>CURRENT_TIMESTAMP\<close>.
\<close>

record customer =
  row_id :: int
  name :: string
  birthday :: string
  email :: string
  phone :: string
  address :: string
  preferred_contact :: string
  created_at :: string

text \<open>
  The table with its rows in insertion order, and \<open>seq\<close>, the entry SQLite keeps for an
  \<^verbatim>\<open>AUTOINCREMENT\<close> table in \<^verbatim>\<open>sqlite_sequence\<close>: the largest id ever assigned. The
  database file is \<open>None\<close> as long as the table has not been created.
\<close>

record table =
  rows :: "customer list"
  seq :: int

type_synonym db = "table option"

text \<open>
  What the storage does during one call: nothing wrong, or a failure (file not reachable,
  disk full, database locked) at \<^verbatim>\<open>connect\<close>, at \<^verbatim>\<open>execute\<close> or at \<^verbatim>\<open>commit\<close>,
  which \<^verbatim>\<open>sqlite3\<close> raises as an exception. \<open>now\<close> is the clock's \<^verbatim>\<open>CURRENT_TIMESTAMP\<close>.
\<close>

datatype fault = NoFault | ConnectFails string | ExecuteFails string | CommitFails string

record env =
  fault :: fault
  now :: string

definition connect :: "env \<Rightarrow> error + unit" where
  "connect e = (case fault e of ConnectFails msg \<Rightarrow> Inl (SqliteError msg) | _ \<Rightarrow> Inr ())"

definition execute_ok :: "env \<Rightarrow> error + unit" where
  "execute_ok e = (case fault e of ExecuteFails msg \<Rightarrow> Inl (SqliteError msg) | _ \<Rightarrow> Inr ())"

definition commit :: "env \<Rightarrow> error + unit" where
  "commit e = (case fault e of CommitFails msg \<Rightarrow> Inl (SqliteError msg) | _ \<Rightarrow> Inr ())"

text \<open>
  \<^verbatim>\<open>CREATE TABLE IF NOT EXISTS customers (...)\<close>: creates the empty table, or leaves an
  existing one as it is. A call that raises changes nothing: the statement is rolled back.
\<close>

definition init_db :: "env \<Rightarrow> db \<Rightarrow> error + db" where
  "init_db e d =
     (case connect e of Inl err \<Rightarrow> Inl err | Inr _ \<Rightarrow>
     (case execute_ok e of Inl err \<Rightarrow> Inl err | Inr _ \<Rightarrow>
     (case commit e of Inl err \<Rightarrow> Inl err | Inr _ \<Rightarrow>
        Inr (case d of None \<Rightarrow> Some \<lparr>rows = [], seq = 0\<rparr> | Some t \<Rightarrow> Some t))))"

subsection \<open>Persistence\<close>

definition max_rowid :: "customer list \<Rightarrow> int" where
  "max_rowid rs = fold max (map row_id rs) 0"

text \<open>
  The id an \<^verbatim>\<open>AUTOINCREMENT\<close> column gives the next row: one more than the largest id
  that has ever been in the table.
\<close>

definition next_rowid :: "table \<Rightarrow> int" where
  "next_rowid t = max (seq t) (max_rowid (rows t)) + 1"

text \<open>
  \<^verbatim>\<open>INSERT INTO customers (name, birthday, email, phone, address, preferred_contact)
  VALUES (?, ?, ?, ?, ?, ?)\<close>. It fails when the table does not exist, and with
  \<^verbatim>\<open>SQLITE_FULL\<close> once the largest 64-bit id has been used.
\<close>

definition sql_insert ::
    "string \<Rightarrow> string \<times> string \<times> string \<times> string \<times> string \<times> string \<Rightarrow> db \<Rightarrow> error + db" where
  "sql_insert ts vals d =
     (case d of
        None \<Rightarrow> Inl (SqliteError ''no such table: customers'')
      | Some t \<Rightarrow>
          (case vals of (v1, v2, v3, v4, v5, v6) \<Rightarrow>
             if next_rowid t > 9223372036854775807
             then Inl (SqliteError ''database or disk is full'')
             else Inr (Some \<lparr>rows = rows t @
                                [\<lparr>row_id = next_rowid t, name = v1, birthday = v2, email = v3,
                                  phone = v4, address = v5, preferred_contact = v6,
                                  created_at = ts\<rparr>],
                              seq = next_rowid t\<rparr>)))"

text \<open>What a Python call returns: \<^verbatim>\<open>None\<close>, or an integer.\<close>

datatype pyval = PyNone | PyInt int

text \<open>
  \<^verbatim>\<open>insert_customer(fields)\<close>, annotated \<^verbatim>\<open>-> None\<close>. \<open>Inl\<close> is the exception raised;
  the database is then as before the call, since nothing was committed. \<open>Inr\<close> carries the
  value returned and the database after the commit.
\<close>

definition insert_customer :: "env \<Rightarrow> (string \<rightharpoonup> string) \<Rightarrow> db \<Rightarrow> error + (pyval \<times> db)" where
  "insert_customer e fields d =
     (case connect e of Inl err \<Rightarrow> Inl err | Inr _ \<Rightarrow>
     (case getitem fields ''name'' of Inl err \<Rightarrow> Inl err | Inr v1 \<Rightarrow>
     (case getitem fields ''birthday'' of Inl err \<Rightarrow> Inl err | Inr v2 \<Rightarrow>
     (case getitem fields ''email'' of Inl err \<Rightarrow> Inl err | Inr v3 \<Rightarrow>
     (case getitem fields ''phone'' of Inl err \<Rightarrow> Inl err | Inr v4 \<Rightarrow>
     (case getitem fields ''address'' of Inl err \<Rightarrow> Inl err | Inr v5 \<Rightarrow>
     (case getitem fields ''preferred_contact'' of Inl err \<Rightarrow> Inl err | Inr v6 \<Rightarrow>
     (case execute_ok e of Inl err \<Rightarrow> Inl err | Inr _ \<Rightarrow>
     (case sql_insert (now e) (strip v1, strip v2, strip v3, strip v4, strip v5, v6) d of
        Inl err \<Rightarrow> Inl err
      | Inr d' \<Rightarrow>
     (case commit e of Inl err \<Rightarrow> Inl err | Inr _ \<Rightarrow> Inr (PyNone, d')))))))))))"
  for fields

subsection \<open>The form and its submit handler\<close>

text \<open>The text held by the six input widgets of \<^verbatim>\<open>App\<close>.\<close>

record form =
  name_var :: string
  bday_var :: string
  email_var :: string
  phone_var :: string
  address_text :: string
  pref_var :: string

text \<open>
  \<^verbatim>\<open>get_form_data\<close>. A Tk text widget returns its content followed by a newline for
  \<^verbatim>\<open>get("1.0", "end")\<close>; the address is stripped here already.
\<close>

definition get_form_data :: "form \<Rightarrow> (string \<rightharpoonup> string)" where
  "get_form_data f =
     [''name'' \<mapsto> name_var f,
      ''birthday'' \<mapsto> bday_var f,
      ''email'' \<mapsto> email_var f,
      ''phone'' \<mapsto> phone_var f,
      ''address'' \<mapsto> strip (address_text f @ [CHR 0x0A]),
      ''preferred_contact'' \<mapsto> pref_var f]"

definition clear_form :: "form \<Rightarrow> form" where
  "clear_form f =
     f\<lparr>name_var := '''', bday_var := '''', email_var := '''', phone_var := '''',
       address_text := '''', pref_var := ''Email''\<rparr>"

text \<open>A message box: its title and its text.\<close>

datatype dialog = ShowError string string | ShowInfo string string

text \<open>\<^verbatim>\<open>str(e)\<close> of the exception caught (a key is shown quoted).\<close>

fun str_error :: "error \<Rightarrow> string" where
  "str_error (KeyError k) = [CHR 0x27] @ k @ [CHR 0x27]"
| "str_error (ValueError msg) = msg"
| "str_error (SqliteError msg) = msg"

text \<open>
  \<^verbatim>\<open>App.on_submit\<close>: the message box shown, the form and the database afterwards.
  \<^verbatim>\<open>validate_all\<close> is called outside the \<^verbatim>\<open>try\<close>, so an exception of it would leave
  the handler (\<open>Inl\<close>).
\<close>

definition on_submit :: "env \<Rightarrow> form \<Rightarrow> db \<Rightarrow> error + (dialog \<times> form \<times> db)" where
  "on_submit e f d =
     (let data = get_form_data f in
      case validate_all data of
        Inl err \<Rightarrow> Inl err
      | Inr (valid, msg) \<Rightarrow>
          if \<not> valid then Inr (ShowError ''Validation Error'' msg, f, d)
          else
            (case insert_customer e data d of
               Inr (_, d') \<Rightarrow>
                 Inr (ShowInfo ''Success'' ''Customer information saved.'', clear_form f, d')
             | Inl err \<Rightarrow>
                 Inr (ShowError ''Database Error''
                        (''Could not save data:'' @ [CHR 0x0A] @ str_error err), f, d)))"

subsection \<open>Notions used by the properties\<close>

text \<open>Whether a text begins, or ends, with a whitespace character.\<close>

fun starts_with_space :: "string \<Rightarrow> bool" where
  "starts_with_space [] = False"
| "starts_with_space (c # cs) = isspace c"

definition ends_with_space :: "string \<Rightarrow> bool" where
  "ends_with_space s = starts_with_space (rev s)"


definition rows_of :: "db \<Rightarrow> customer list" where
  "rows_of d = (case d of None \<Rightarrow> [] | Some t \<Rightarrow> rows t)"



text \<open>
  A sequence of submissions of the form on one database; it ends early if the handler
  itself raises.
\<close>

fun submit_all :: "db \<Rightarrow> (env \<times> form) list \<Rightarrow> db" where
  "submit_all d [] = d"
| "submit_all d ((e, f) # calls) =
     (case on_submit e f d of
        Inl _ \<Rightarrow> d
      | Inr (_, _, d') \<Rightarrow> submit_all d' calls)"

subsection \<open>Concrete inputs\<close>

text \<open>The first scenario of the specification, a storage without faults, and the empty table.\<close>

definition ana_form :: form where
  "ana_form =
     \<lparr>name_var = ''Ana Li'', bday_var = ''2001-09-15'', email_var = ''a@b.co'',
      phone_var = ''(555) 123-4567'', address_text = ''1 Main St'', pref_var = ''Email''\<rparr>"

definition ana_fields :: "string \<rightharpoonup> string" where
  "ana_fields =
     [''name'' \<mapsto> ''Ana Li'', ''birthday'' \<mapsto> ''2001-09-15'', ''email'' \<mapsto> ''a@b.co'',
      ''phone'' \<mapsto> ''(555) 123-4567'', ''address'' \<mapsto> ''1 Main St'',
      ''preferred_contact'' \<mapsto> ''Email'']"

definition padded_fields :: "string \<rightharpoonup> string" where
  "padded_fields =
     [''name'' \<mapsto> ''  Ana Li '', ''birthday'' \<mapsto> '' 2001-09-15'', ''email'' \<mapsto> ''a@b.co '',
      ''phone'' \<mapsto> '' (555) 123-4567 '', ''address'' \<mapsto> ''1 Main St  '',
      ''preferred_contact'' \<mapsto> ''Email'']"

definition quiet :: env where
  "quiet = \<lparr>fault = NoFault, now = ''2026-01-01 00:00:00''\<rparr>"

definition empty_table :: db where
  "empty_table = Some \<lparr>rows = [], seq = 0\<rparr>"

definition ana_row :: "int \<Rightarrow> customer" where
  "ana_row i =
     \<lparr>row_id = i, name = ''Ana Li'', birthday = ''2001-09-15'', email = ''a@b.co'',
      phone = ''(555) 123-4567'', address = ''1 Main St'', preferred_contact = ''Email'',
      created_at = ''2026-01-01 00:00:00''\<rparr>"

text \<open>Scenarios 2 to 5 of the specification in one mapping: four fields are invalid.\<close>

definition bad_fields :: "string \<rightharpoonup> string" where
  "bad_fields =
     [''name'' \<mapsto> ''Ana Li'', ''birthday'' \<mapsto> ''2021-13-40'', ''email'' \<mapsto> ''not-an-email'',
      ''phone'' \<mapsto> ''555-1234'', ''address'' \<mapsto> ''1 Main St'',
      ''preferred_contact'' \<mapsto> ''Fax'']"

text \<open>
  What stripping is to do to a text: the stored text is the original without a run of
  whitespace at its start and at its end, and it neither starts nor ends with whitespace.
\<close>

definition outer_space_removed :: "string \<Rightarrow> string \<Rightarrow> bool" where
  "outer_space_removed orig stored =
     ((\<exists>a b. orig = a @ stored @ b \<and> list_all isspace a \<and> list_all isspace b)
      \<and> \<not> starts_with_space stored \<and> \<not> ends_with_space stored)"


text \<open>
  The form of the first scenario with the birthday typed without leading zeros, and with
  a contact preference that is not one of the three.
\<close>

definition unpadded_form :: form where
  "unpadded_form = ana_form\<lparr>bday_var := ''2001-9-5''\<rparr>"


section \<open>Properties\<close>

subsection \<open>Stripping\<close>

lemma starts_dropWhile: "\<not> starts_with_space (dropWhile isspace s)"
  by (induction s) auto



lemma rstrip_prefix: "s = rstrip s @ rev (takeWhile isspace (rev s))"
proof -
  have "rev (dropWhile isspace (rev s)) @ rev (takeWhile isspace (rev s))
      = rev (takeWhile isspace (rev s) @ dropWhile isspace (rev s))"
    by (simp only: rev_append)
  also have "\<dots> = rev (rev s)" by (simp only: takeWhile_dropWhile_id)
  finally show ?thesis by (simp add: rstrip_def)
qed

lemma ends_rstrip: "\<not> ends_with_space (rstrip s)"
  by (simp add: ends_with_space_def rstrip_def starts_dropWhile)

lemma starts_rstrip: "\<not> starts_with_space s \<Longrightarrow> \<not> starts_with_space (rstrip s)"
proof (cases "rstrip s")
  case Nil
  then show ?thesis by simp
next
  case (Cons c cs)
  assume "\<not> starts_with_space s"
  moreover have "s = (c # cs) @ rev (takeWhile isspace (rev s))"
    using rstrip_prefix [of s] Cons by simp
  ultimately have "\<not> isspace c"
    by (metis append_Cons starts_with_space.simps(2))
  then show ?thesis using Cons by simp
qed

lemma strip_no_outer_space: "\<not> starts_with_space (strip s) \<and> \<not> ends_with_space (strip s)"
  by (simp add: strip_def ends_rstrip starts_rstrip lstrip_def starts_dropWhile)


lemma strip_decomp:
  "s = takeWhile isspace s @ strip s @ rev (takeWhile isspace (rev (lstrip s)))"
proof -
  have "s = takeWhile isspace s @ lstrip s" by (simp add: lstrip_def)
  moreover have "lstrip s = strip s @ rev (takeWhile isspace (rev (lstrip s)))"
    using rstrip_prefix [of "lstrip s"] by (simp add: strip_def)
  ultimately show ?thesis by metis
qed

lemma strip_only_outer_space:
  "\<exists>a b. s = a @ strip s @ b \<and> list_all isspace a \<and> list_all isspace b"
proof -
  have "list_all isspace (takeWhile isspace s)"
    by (auto simp: list_all_iff dest: set_takeWhileD)
  moreover have "list_all isspace (rev (takeWhile isspace (rev (lstrip s))))"
    by (auto simp: list_all_iff dest: set_takeWhileD)
  ultimately show ?thesis using strip_decomp [of s] by blast
qed

subsection \<open>Validators on stripped text\<close>


lemma re_sub_nondigit_filter: "re_sub_nondigit s = filter isdigit s"
  by (induction s) auto







subsection \<open>The record validator\<close>

lemma validate_all_first_failure:
  "validate_all fs =
     (case first_failure fs field_order of
        Inl err \<Rightarrow> Inl err
      | Inr None \<Rightarrow> Inr (True, '''')
      | Inr (Some k) \<Rightarrow> Inr (False, reason_of k))"
  by (simp add: validate_all_def field_order_def getitem_def validator_def reason_of_def
      split: option.splits)

lemma first_failure_find:
  "set ks \<subseteq> dom fs \<Longrightarrow>
   first_failure fs ks = Inr (find (\<lambda>k. \<not> validator k (the (fs k))) ks)"
  by (induction ks) auto

lemma first_failure_prefix:
  "\<forall>j\<in>set pre. \<exists>v. fs j = Some v \<and> validator j v \<Longrightarrow> fs k = Some v \<Longrightarrow>
   \<not> validator k v \<Longrightarrow> first_failure fs (pre @ k # post) = Inr (Some k)"
  by (induction pre) auto


subsection \<open>The store\<close>

lemma fold_max_ge_init: "(a::int) \<le> fold max xs a"
  by (induction xs arbitrary: a) (auto intro: order_trans [OF max.cobounded2])

lemma fold_max_ge_elem: "x \<in> set xs \<Longrightarrow> (x::int) \<le> fold max xs a"
proof (induction xs arbitrary: a)
  case Nil
  then show ?case by simp
next
  case (Cons y ys)
  show ?case
  proof (cases "x = y")
    case True
    have "max y a \<le> fold max ys (max y a)" by (rule fold_max_ge_init)
    then show ?thesis using True by simp
  next
    case False
    then show ?thesis using Cons by simp
  qed
qed

lemma next_rowid_fresh: "r \<in> set (rows t) \<Longrightarrow> row_id r < next_rowid t"
  using fold_max_ge_elem [of "row_id r" "map row_id (rows t)" 0]
  by (simp add: next_rowid_def max_rowid_def)


lemma insert_customer_Inr:
  assumes "insert_customer e fs d = Inr (r, d')"
  shows "\<exists>t v1 v2 v3 v4 v5 v6.
      d = Some t \<and> r = PyNone
      \<and> fs ''name'' = Some v1 \<and> fs ''birthday'' = Some v2 \<and> fs ''email'' = Some v3
      \<and> fs ''phone'' = Some v4 \<and> fs ''address'' = Some v5 \<and> fs ''preferred_contact'' = Some v6
      \<and> next_rowid t \<le> 9223372036854775807
      \<and> d' = Some \<lparr>rows = rows t @
                        [\<lparr>row_id = next_rowid t, name = strip v1, birthday = strip v2,
                          email = strip v3, phone = strip v4, address = strip v5,
                          preferred_contact = v6, created_at = now e\<rparr>],
                      seq = next_rowid t\<rparr>"
  using assms
  by (auto simp: insert_customer_def getitem_def sql_insert_def
      split: sum.splits option.splits if_splits)

subsection \<open>Stored text\<close>

lemma outer_space_removed_strip: "outer_space_removed s (strip s)"
  using strip_only_outer_space [of s] strip_no_outer_space [of s]
  by (simp add: outer_space_removed_def)

lemma choice_no_outer_space:
  "validate_preferred_contact s \<Longrightarrow> \<not> starts_with_space s \<and> \<not> ends_with_space s"
  by (auto simp: validate_preferred_contact_def ends_with_space_def isspace_def)

subsection \<open>Assigned ids\<close>

lemma max_rowid_snoc: "max_rowid (rs @ [r]) = max (row_id r) (max_rowid rs)"
  by (simp add: max_rowid_def)

lemma max_rowid_below_next: "max_rowid (rows t) < next_rowid t"
  by (simp add: next_rowid_def)

lemma next_rowid_after_insert:
  "next_rowid \<lparr>rows = rows t @ [r], seq = next_rowid t\<rparr> = next_rowid t + 1"
  if "row_id r = next_rowid t"
  using that max_rowid_below_next [of t] by (simp add: next_rowid_def max_rowid_snoc)



subsection \<open>The submit handler\<close>









subsection \<open>Database setup\<close>

lemma init_db_creates: "init_db quiet None = Inr empty_table"
  by (simp add: init_db_def connect_def execute_ok_def commit_def quiet_def empty_table_def)

lemma init_db_keeps: "init_db e (Some t) = Inr d' \<Longrightarrow> d' = Some t"
  by (auto simp: init_db_def split: sum.splits)

section \<open>The claims\<close>

subsection \<open>Field validators\<close>

text \<open>
  Claim C8. The phone validator accepts a string exactly when at least ten digit characters
  remain once every character that is not a digit has been removed. The string
  \<^verbatim>\<open>555-1234\<close> with seven digits is rejected and \<^verbatim>\<open>555-123-4567\<close> with ten digits
  is accepted.
\<close>

theorem validate_phone_ten_digits:
  "validate_phone s = (10 \<le> length (filter isdigit s))
   \<and> \<not> validate_phone ''555-1234'' \<and> validate_phone ''555-123-4567''"
  by (simp add: validate_phone_def re_sub_nondigit_filter isdigit_def)

text \<open>
  Claim C9. Each of the six field validators rejects the empty string: the validators of
  the name and of the address, and also those of the birthday, the email, the phone and
  the preferred contact.
\<close>

theorem validators_reject_empty:
  "\<not> validate_name '''' \<and> \<not> validate_birthday '''' \<and> \<not> validate_email ''''
   \<and> \<not> validate_phone '''' \<and> \<not> validate_address '''' \<and> \<not> validate_preferred_contact ''''"
  by (simp add: validate_name_def validate_birthday_def validate_email_def validate_phone_def
      validate_address_def validate_preferred_contact_def strip_def lstrip_def rstrip_def
      strptime_def format_regex_matches_def re_match_anchored_def EMAIL_RE_def)

text \<open>
  Claim C10. The validator of the preferred contact is a test of equality with one of the
  three strings \<^verbatim>\<open>Email\<close>, \<^verbatim>\<open>Phone\<close>, \<^verbatim>\<open>Mail\<close>, character for character: it neither
  strips its argument nor folds its case, so \<^verbatim>\<open>" Email "\<close> and \<^verbatim>\<open>"email"\<close> are rejected.
\<close>

theorem validate_preferred_contact_exact:
  "validate_preferred_contact s = (s = ''Email'' \<or> s = ''Phone'' \<or> s = ''Mail'')
   \<and> \<not> validate_preferred_contact '' Email '' \<and> \<not> validate_preferred_contact ''email''"
  by (simp add: validate_preferred_contact_def)

text \<open>
  Claim C3. The birthday validator is to accept a string exactly when, stripped, it is a
  calendar date written \<^verbatim>\<open>YYYY-MM-DD\<close>, and to reject every string that is not in that
  exact format. It does reject a month 13 and a day 32, but it accepts a month and a day
  written without their leading zero, and a day written with a space in place of it:
  \<^verbatim>\<open>2001-9-5\<close> and \<^verbatim>\<open>2001-09- 5\<close> pass, and a submission with the birthday
  \<^verbatim>\<open>2001-9-5\<close> stores that text as it is.
\<close>

theorem validate_birthday_accepts_unpadded:
  "validate_birthday ''2001-9-5'' \<and> validate_birthday ''2001-09- 5''
   \<and> \<not> validate_birthday ''2001-13-01'' \<and> \<not> validate_birthday ''2001-01-32''
   \<and> map birthday (rows_of (submit_all empty_table [(quiet, unpadded_form)])) = [''2001-9-5'']"
  by code_simp

subsection \<open>Record validator\<close>

text \<open>
  Claim C2. On a mapping that holds the six fields, \<^verbatim>\<open>validate_all\<close> returns failure with
  the reason of the earliest invalid field in the order name, birthday, email, phone,
  address, preferred contact, and success with the empty reason when all six pass. The
  fields after the first failure are not looked at: whatever they hold, and even when they
  are missing, the result is the reason of the first field that fails. The six reasons
  differ from each other, so the reason names the field.
\<close>

theorem validate_all_earliest_invalid:
  "(set field_order \<subseteq> dom fs \<longrightarrow>
      validate_all fs =
        Inr (case earliest_invalid fs of
               None \<Rightarrow> (True, '''') | Some k \<Rightarrow> (False, reason_of k)))
   \<and> (field_order = pre @ k # post \<and> (\<forall>j\<in>set pre. \<exists>w. fs j = Some w \<and> validator j w)
        \<and> fs k = Some v \<and> \<not> validator k v \<longrightarrow>
      validate_all fs = Inr (False, reason_of k))
   \<and> distinct (map reason_of field_order)"
proof (intro conjI impI)
  assume "set field_order \<subseteq> dom fs"
  then show "validate_all fs =
        Inr (case earliest_invalid fs of
               None \<Rightarrow> (True, '''') | Some k \<Rightarrow> (False, reason_of k))"
    by (simp add: validate_all_first_failure first_failure_find earliest_invalid_def
        split: option.splits)
next
  assume a: "field_order = pre @ k # post \<and> (\<forall>j\<in>set pre. \<exists>w. fs j = Some w \<and> validator j w)
        \<and> fs k = Some v \<and> \<not> validator k v"
  then have "first_failure fs field_order = Inr (Some k)"
    using first_failure_prefix [of pre fs k v post] by simp
  then show "validate_all fs = Inr (False, reason_of k)"
    by (simp add: validate_all_first_failure)
next
  show "distinct (map reason_of field_order)"
    by (simp add: field_order_def reason_of_def)
qed

theorem validate_all_earliest_invalid_witness:
  "set field_order \<subseteq> dom bad_fields
   \<and> \<not> validator ''birthday'' ''2021-13-40'' \<and> \<not> validator ''email'' ''not-an-email''
   \<and> \<not> validator ''phone'' ''555-1234'' \<and> \<not> validator ''preferred_contact'' ''Fax''
   \<and> earliest_invalid bad_fields = Some ''birthday''
   \<and> validate_all bad_fields
       = Inr (False, ''Birthday must be in YYYY-MM-DD format (e.g., 2001-09-15).'')"
proof -
  have dom: "set field_order \<subseteq> dom bad_fields"
    by (simp add: field_order_def bad_fields_def)
  have name: "validator ''name'' ''Ana Li''" by code_simp
  have bday: "\<not> validator ''birthday'' ''2021-13-40''" by code_simp
  have rest: "\<not> validator ''email'' ''not-an-email'' \<and> \<not> validator ''phone'' ''555-1234''
      \<and> \<not> validator ''preferred_contact'' ''Fax''" by code_simp
  have split: "field_order
      = [''name''] @ ''birthday'' # [''email'', ''phone'', ''address'', ''preferred_contact'']"
    by (simp add: field_order_def)
  have pre: "\<forall>j\<in>set [''name'']. \<exists>w. bad_fields j = Some w \<and> validator j w"
    using name by (simp add: bad_fields_def)
  have at: "bad_fields ''birthday'' = Some ''2021-13-40''"
    by (simp add: bad_fields_def)
  have early: "earliest_invalid bad_fields = Some ''birthday''"
    using name bday by (simp add: earliest_invalid_def field_order_def bad_fields_def)
  have "validate_all bad_fields = Inr (False, reason_of ''birthday'')"
    using validate_all_earliest_invalid [of bad_fields "[''name'']" "''birthday''"
        "[''email'', ''phone'', ''address'', ''preferred_contact'']" "''2021-13-40''"]
      split pre at bday by blast
  then show ?thesis using dom bday rest early by (simp add: reason_of_def)
qed

subsection \<open>Submission\<close>



subsection \<open>Persistence\<close>




text \<open>
  Claim C5. Whenever \<^verbatim>\<open>insert_customer\<close> succeeds, the stored name, birthday, email,
  phone and address are the caller's values stripped: the same text without the whitespace
  around it, so the phone keeps its punctuation and its inner spaces, and none of the five
  starts or ends with whitespace. The preferred contact is stored as given, and has no
  whitespace around it when it passes its validator.
\<close>

theorem insert_customer_stores_stripped:
  assumes "insert_customer e fs d = Inr (r, d')"
  shows "\<exists>t row v1 v2 v3 v4 v5 v6.
      d = Some t \<and> d' = Some \<lparr>rows = rows t @ [row], seq = row_id row\<rparr>
      \<and> fs ''name'' = Some v1 \<and> fs ''birthday'' = Some v2 \<and> fs ''email'' = Some v3
      \<and> fs ''phone'' = Some v4 \<and> fs ''address'' = Some v5 \<and> fs ''preferred_contact'' = Some v6
      \<and> name row = strip v1 \<and> outer_space_removed v1 (name row)
      \<and> birthday row = strip v2 \<and> outer_space_removed v2 (birthday row)
      \<and> email row = strip v3 \<and> outer_space_removed v3 (email row)
      \<and> phone row = strip v4 \<and> outer_space_removed v4 (phone row)
      \<and> address row = strip v5 \<and> outer_space_removed v5 (address row)
      \<and> preferred_contact row = v6
      \<and> (validate_preferred_contact v6 \<longrightarrow>
           \<not> starts_with_space (preferred_contact row) \<and> \<not> ends_with_space (preferred_contact row))"
proof -
  obtain t v1 v2 v3 v4 v5 v6 where h:
    "d = Some t" "fs ''name'' = Some v1" "fs ''birthday'' = Some v2" "fs ''email'' = Some v3"
    "fs ''phone'' = Some v4" "fs ''address'' = Some v5" "fs ''preferred_contact'' = Some v6"
    "d' = Some \<lparr>rows = rows t @
                        [\<lparr>row_id = next_rowid t, name = strip v1, birthday = strip v2,
                          email = strip v3, phone = strip v4, address = strip v5,
                          preferred_contact = v6, created_at = now e\<rparr>],
                      seq = next_rowid t\<rparr>"
    using insert_customer_Inr [OF assms] by blast
  let ?row = "\<lparr>row_id = next_rowid t, name = strip v1, birthday = strip v2,
                          email = strip v3, phone = strip v4, address = strip v5,
                          preferred_contact = v6, created_at = now e\<rparr>"
  have "d = Some t \<and> d' = Some \<lparr>rows = rows t @ [?row], seq = row_id ?row\<rparr>
      \<and> fs ''name'' = Some v1 \<and> fs ''birthday'' = Some v2 \<and> fs ''email'' = Some v3
      \<and> fs ''phone'' = Some v4 \<and> fs ''address'' = Some v5 \<and> fs ''preferred_contact'' = Some v6
      \<and> name ?row = strip v1 \<and> outer_space_removed v1 (name ?row)
      \<and> birthday ?row = strip v2 \<and> outer_space_removed v2 (birthday ?row)
      \<and> email ?row = strip v3 \<and> outer_space_removed v3 (email ?row)
      \<and> phone ?row = strip v4 \<and> outer_space_removed v4 (phone ?row)
      \<and> address ?row = strip v5 \<and> outer_space_removed v5 (address ?row)
      \<and> preferred_contact ?row = v6
      \<and> (validate_preferred_contact v6 \<longrightarrow>
           \<not> starts_with_space (preferred_contact ?row) \<and> \<not> ends_with_space (preferred_contact ?row))"
    using h by (simp add: outer_space_removed_strip choice_no_outer_space)
  then show ?thesis by blast
qed

theorem insert_customer_stores_stripped_witness:
  "insert_customer quiet padded_fields empty_table
     = Inr (PyNone, Some \<lparr>rows = [ana_row 1], seq = 1\<rparr>)
   \<and> padded_fields ''phone'' = Some '' (555) 123-4567 ''
   \<and> (\<exists>t row v1 v2 v3 v4 v5 v6.
      empty_table = Some t
      \<and> Some \<lparr>rows = [ana_row 1], seq = 1\<rparr> = Some \<lparr>rows = rows t @ [row], seq = row_id row\<rparr>
      \<and> padded_fields ''name'' = Some v1 \<and> padded_fields ''birthday'' = Some v2
      \<and> padded_fields ''email'' = Some v3 \<and> padded_fields ''phone'' = Some v4
      \<and> padded_fields ''address'' = Some v5 \<and> padded_fields ''preferred_contact'' = Some v6
      \<and> name row = strip v1 \<and> outer_space_removed v1 (name row)
      \<and> birthday row = strip v2 \<and> outer_space_removed v2 (birthday row)
      \<and> email row = strip v3 \<and> outer_space_removed v3 (email row)
      \<and> phone row = strip v4 \<and> outer_space_removed v4 (phone row)
      \<and> address row = strip v5 \<and> outer_space_removed v5 (address row)
      \<and> preferred_contact row = v6
      \<and> (validate_preferred_contact v6 \<longrightarrow>
           \<not> starts_with_space (preferred_contact row) \<and> \<not> ends_with_space (preferred_contact row)))
   \<and> phone (ana_row 1) = ''(555) 123-4567''"
proof -
  have run: "insert_customer quiet padded_fields empty_table
      = Inr (PyNone, Some \<lparr>rows = [ana_row 1], seq = 1\<rparr>)"
    by code_simp
  have "padded_fields ''phone'' = Some '' (555) 123-4567 ''"
    by (simp add: padded_fields_def)
  moreover have "phone (ana_row 1) = ''(555) 123-4567''"
    by (simp add: ana_row_def)
  ultimately show ?thesis
    using run insert_customer_stores_stripped [OF run] by simp
qed



text \<open>
  Claim C7. Two calls of \<^verbatim>\<open>insert_customer\<close> in a row with the same fields, both
  successful, add two rows: their ids differ, the second being the first plus one, neither
  id is in the table before, and the six user columns of the two rows are equal. Nothing
  detects the duplicate.
\<close>

theorem insert_customer_twice_two_rows:
  assumes "insert_customer e1 fs d = Inr (r1, d1)"
    and "insert_customer e2 fs d1 = Inr (r2, d2)"
  shows "\<exists>t row1 row2.
      d = Some t \<and> d1 = Some \<lparr>rows = rows t @ [row1], seq = row_id row1\<rparr>
      \<and> d2 = Some \<lparr>rows = rows t @ [row1, row2], seq = row_id row2\<rparr>
      \<and> row_id row1 = next_rowid t \<and> row_id row2 = row_id row1 + 1
      \<and> row_id row1 \<noteq> row_id row2 \<and> row1 \<noteq> row2
      \<and> row_id row1 \<notin> row_id ` set (rows t) \<and> row_id row2 \<notin> row_id ` set (rows t)
      \<and> name row2 = name row1 \<and> birthday row2 = birthday row1 \<and> email row2 = email row1
      \<and> phone row2 = phone row1 \<and> address row2 = address row1
      \<and> preferred_contact row2 = preferred_contact row1"
proof -
  obtain t v1 v2 v3 v4 v5 v6 where h1:
    "d = Some t" "fs ''name'' = Some v1" "fs ''birthday'' = Some v2" "fs ''email'' = Some v3"
    "fs ''phone'' = Some v4" "fs ''address'' = Some v5" "fs ''preferred_contact'' = Some v6"
    "d1 = Some \<lparr>rows = rows t @
                        [\<lparr>row_id = next_rowid t, name = strip v1, birthday = strip v2,
                          email = strip v3, phone = strip v4, address = strip v5,
                          preferred_contact = v6, created_at = now e1\<rparr>],
                      seq = next_rowid t\<rparr>"
    using insert_customer_Inr [OF assms(1)] by blast
  let ?row1 = "\<lparr>row_id = next_rowid t, name = strip v1, birthday = strip v2,
                          email = strip v3, phone = strip v4, address = strip v5,
                          preferred_contact = v6, created_at = now e1\<rparr>"
  let ?t1 = "\<lparr>rows = rows t @ [?row1], seq = next_rowid t\<rparr>"
  have next1: "next_rowid ?t1 = next_rowid t + 1"
    by (rule next_rowid_after_insert) simp
  obtain t' w1 w2 w3 w4 w5 w6 where h2:
    "d1 = Some t'" "fs ''name'' = Some w1" "fs ''birthday'' = Some w2" "fs ''email'' = Some w3"
    "fs ''phone'' = Some w4" "fs ''address'' = Some w5" "fs ''preferred_contact'' = Some w6"
    "d2 = Some \<lparr>rows = rows t' @
                        [\<lparr>row_id = next_rowid t', name = strip w1, birthday = strip w2,
                          email = strip w3, phone = strip w4, address = strip w5,
                          preferred_contact = w6, created_at = now e2\<rparr>],
                      seq = next_rowid t'\<rparr>"
    using insert_customer_Inr [OF assms(2)] by blast
  have t': "t' = ?t1" using h1(8) h2(1) by simp
  have same: "w1 = v1" "w2 = v2" "w3 = v3" "w4 = v4" "w5 = v5" "w6 = v6"
    using h1 h2 by simp_all
  let ?row2 = "\<lparr>row_id = next_rowid t + 1, name = strip v1, birthday = strip v2,
                          email = strip v3, phone = strip v4, address = strip v5,
                          preferred_contact = v6, created_at = now e2\<rparr>"
  have d2: "d2 = Some \<lparr>rows = rows t @ [?row1, ?row2], seq = row_id ?row2\<rparr>"
    using h2(8) t' same next1 by simp
  have fresh: "row_id ?row1 \<notin> row_id ` set (rows t)" "row_id ?row2 \<notin> row_id ` set (rows t)"
    using next_rowid_fresh [of _ t] by fastforce+
  have "d = Some t \<and> d1 = Some \<lparr>rows = rows t @ [?row1], seq = row_id ?row1\<rparr>
      \<and> d2 = Some \<lparr>rows = rows t @ [?row1, ?row2], seq = row_id ?row2\<rparr>
      \<and> row_id ?row1 = next_rowid t \<and> row_id ?row2 = row_id ?row1 + 1
      \<and> row_id ?row1 \<noteq> row_id ?row2 \<and> ?row1 \<noteq> ?row2
      \<and> row_id ?row1 \<notin> row_id ` set (rows t) \<and> row_id ?row2 \<notin> row_id ` set (rows t)
      \<and> name ?row2 = name ?row1 \<and> birthday ?row2 = birthday ?row1 \<and> email ?row2 = email ?row1
      \<and> phone ?row2 = phone ?row1 \<and> address ?row2 = address ?row1
      \<and> preferred_contact ?row2 = preferred_contact ?row1"
    using h1(1,8) d2 fresh by simp
  then show ?thesis by blast
qed

theorem insert_customer_twice_two_rows_witness:
  "insert_customer quiet ana_fields empty_table
     = Inr (PyNone, Some \<lparr>rows = [ana_row 1], seq = 1\<rparr>)
   \<and> insert_customer quiet ana_fields (Some \<lparr>rows = [ana_row 1], seq = 1\<rparr>)
     = Inr (PyNone, Some \<lparr>rows = [ana_row 1, ana_row 2], seq = 2\<rparr>)
   \<and> (\<exists>t row1 row2.
      empty_table = Some t
      \<and> Some \<lparr>rows = [ana_row 1, ana_row 2], seq = 2\<rparr>
          = Some \<lparr>rows = rows t @ [row1, row2], seq = row_id row2\<rparr>
      \<and> row_id row2 = row_id row1 + 1 \<and> row_id row1 \<noteq> row_id row2 \<and> row1 \<noteq> row2
      \<and> name row2 = name row1 \<and> phone row2 = phone row1)"
proof -
  have run1: "insert_customer quiet ana_fields empty_table
      = Inr (PyNone, Some \<lparr>rows = [ana_row 1], seq = 1\<rparr>)"
    by code_simp
  have run2: "insert_customer quiet ana_fields (Some \<lparr>rows = [ana_row 1], seq = 1\<rparr>)
      = Inr (PyNone, Some \<lparr>rows = [ana_row 1, ana_row 2], seq = 2\<rparr>)"
    by code_simp
  from insert_customer_twice_two_rows [OF run1 run2]
  have "\<exists>t row1 row2.
      empty_table = Some t
      \<and> Some \<lparr>rows = [ana_row 1, ana_row 2], seq = 2\<rparr>
          = Some \<lparr>rows = rows t @ [row1, row2], seq = row_id row2\<rparr>
      \<and> row_id row2 = row_id row1 + 1 \<and> row_id row1 \<noteq> row_id row2 \<and> row1 \<noteq> row2
      \<and> name row2 = name row1 \<and> phone row2 = phone row1"
    by blast
  then show ?thesis using run1 run2 by blast
qed

end
